theory Spec2Isabelle
  imports Main
begin

section \<open>Errors and outcomes\<close>

text \<open>
  Go errors are values: \<open>errors.New msg\<close> is \<open>Err msg\<close> and
  \<open>errors.Wrapf err msg\<close> is \<open>Wrap msg err\<close>. A call either returns, panics
  (a run-time panic such as a nil dereference or a slice bound violation), or never
  returns because it is blocked on a channel receive that never becomes ready.
\<close>

datatype error = Err string | Wrap string error

datatype 'a outcome = Returned 'a | Panicked | Blocked

section \<open>Workload descriptor\<close>

text \<open>
  The parts of \<open>appsv1.DeploymentConfig\<close> the patch engine reads and writes.
  \<open>Spec.Template\<close> is a pointer in the platform's API types, so a
  \<open>DeploymentConfig\<close> passed by value still shares its pod template with the
  caller: writes through \<open>dc.Spec.Template.Spec\<close> are visible to the caller, and the
  model returns the updated descriptor.
\<close>

datatype VolumeSource = EmptyDir | PersistentVolumeClaim string

record Volume =
  vol_name :: string
  vol_source :: VolumeSource

record VolumeMount =
  vm_name :: string
  vm_mountPath :: string

datatype Protocol = TCP | UDP

record Container =
  c_name :: string
  c_image :: string
  c_ports :: "(nat \<times> Protocol) list"
  c_env :: "(string \<times> string) list"
  c_volumeMounts :: "VolumeMount list"

record DCSpec =
  containers :: "Container list"
  initContainers :: "Container list"
  volumes :: "Volume list"

record ObjectMeta =
  om_name :: string
  om_resourceVersion :: nat
  om_annotations :: "(string \<times> string) list"
  om_labels :: "(string \<times> string) list"

record DeploymentConfig =
  dc_meta :: ObjectMeta
  dc_spec :: DCSpec

text \<open>Indexing a Go map of strings with a missing key yields the empty string.\<close>

definition map_index :: "(string \<times> string) list \<Rightarrow> string \<Rightarrow> string" where
  "map_index m k = (case map_of m k of None \<Rightarrow> [] | Some v \<Rightarrow> v)"

definition supervisordVolumeName :: string where
  "supervisordVolumeName = ''odo-supervisord-shared-data''"

definition getAppRootVolumeName :: "string \<Rightarrow> string" where
  "getAppRootVolumeName dcName = dcName @ ''-s2idata''"

section \<open>Copying volumes and volume mounts\<close>

text \<open>
  \<open>findContainer\<close>: the first container with the given name; a blank name is refused.
\<close>

fun findContainer_loop :: "Container list \<Rightarrow> string \<Rightarrow> error + Container" where
  "findContainer_loop [] name = Inl (Err ''Unable to find container'')"
| "findContainer_loop (container # rest) name =
     (if c_name container = name then Inr container else findContainer_loop rest name)"

definition findContainer :: "Container list \<Rightarrow> string \<Rightarrow> error + Container" where
  "findContainer cs name =
     (if name = [] then
        Inl (Err ''Invalid parameter for findContainer, unable to find a blank container'')
      else findContainer_loop cs name)"

text \<open>
  The inner loop of \<open>copyVolumesAndVolumeMounts\<close> over the mounts of the matching
  container: a mount named like the supervisord volume is skipped with \<open>continue\<close>;
  any other mount is appended, and the \<open>break\<close> that follows the \<open>if\<close> leaves the
  loop right after that first append.
\<close>

fun copy_mounts_loop :: "VolumeMount list \<Rightarrow> VolumeMount list \<Rightarrow> VolumeMount list" where
  "copy_mounts_loop [] acc = acc"
| "copy_mounts_loop (volume # rest) acc =
     (if vm_name volume = supervisordVolumeName then copy_mounts_loop rest acc
      else acc @ [volume])"

text \<open>The loop over the current descriptor's volumes has the same shape.\<close>

fun copy_volumes_loop :: "Volume list \<Rightarrow> Volume list \<Rightarrow> Volume list" where
  "copy_volumes_loop [] acc = acc"
| "copy_volumes_loop (volume # rest) acc =
     (if vol_name volume = supervisordVolumeName then copy_volumes_loop rest acc
      else acc @ [volume])"

definition copyVolumesAndVolumeMounts ::
  "DeploymentConfig \<Rightarrow> DeploymentConfig \<Rightarrow> Container \<Rightarrow> DeploymentConfig" where
  "copyVolumesAndVolumeMounts dc currentDC matchingContainer =
     (let cs = map (\<lambda>container.
                 if c_name container = c_name matchingContainer
                 then container\<lparr>c_volumeMounts :=
                        copy_mounts_loop (c_volumeMounts matchingContainer)
                          (c_volumeMounts container)\<rparr>
                 else container)
               (containers (dc_spec dc));
          vs = copy_volumes_loop (volumes (dc_spec currentDC)) (volumes (dc_spec dc))
      in dc\<lparr>dc_spec := (dc_spec dc)\<lparr>containers := cs, volumes := vs\<rparr>\<rparr>)"

section \<open>Condition watcher\<close>

text \<open>
  A watch event carries a change type and an object whose dynamic type the waiting
  code tests with a type assertion. An \<open>ERROR\<close> event carries a status object.
\<close>

datatype EventType = ADDED | MODIFIED | DELETED | ERROR

datatype BuildPhase =
  BuildPhaseNew | BuildPhasePending | BuildPhaseRunning | BuildPhaseComplete
  | BuildPhaseFailed | BuildPhaseError | BuildPhaseCancelled

datatype PodPhase = PodPending | PodRunning | PodSucceeded | PodFailed | PodUnknown

record Build =
  build_name :: string
  build_phase :: BuildPhase

record Pod =
  pod_name :: string
  pod_phase :: PodPhase

record Secret =
  secret_name :: string
  secret_data :: "(string \<times> string) list"

datatype Object =
  DCObject DeploymentConfig
  | PodObject Pod
  | SecretObject Secret
  | BuildObject Build
  | StatusObject string

type_synonym Event = "EventType \<times> Object"

text \<open>
  One receive \<open>val, ok := <-w.ResultChan()\<close>: an event, or \<open>ok = false\<close> because the
  channel is closed. A run of a wait is driven by the list of what happens around it,
  in order: the stream delivers something (\<open>Chan\<close>), or the time budget of the wait
  elapses (\<open>TimerFired\<close>). A wait that selects on a timer returns when the budget
  elapses; a wait written without a timer has nothing that the passing of time could
  wake. When the list is used up nothing happens any more and the call stays blocked.
\<close>

datatype Recv = Event Event | Closed

datatype Wake = TimerFired | Chan Recv

text \<open>
  The result of opening the subscription: the handle together with what it will
  deliver, or an error; \<open>WatchFailed e handle_nil\<close> records whether the returned
  \<open>watch.Interface\<close> is nil on failure.
\<close>

datatype WatchResult = WatchOpened "Wake list" | WatchFailed error bool

text \<open>
  A run yields its outcome and the number of times \<open>w.Stop()\<close> has been invoked.
  A deferred \<open>Stop\<close> runs when the function returns and when it panics, not while
  it is blocked.
\<close>

type_synonym 'a run = "'a outcome \<times> nat"

definition deferred_Stop :: "'a outcome \<Rightarrow> 'a run" where
  "deferred_Stop out = (case out of Blocked \<Rightarrow> (Blocked, 0) | _ \<Rightarrow> (out, 1))"

definition buildPhaseString :: "BuildPhase \<Rightarrow> string" where
  "buildPhaseString p = (case p of
       BuildPhaseNew \<Rightarrow> ''New'' | BuildPhasePending \<Rightarrow> ''Pending''
     | BuildPhaseRunning \<Rightarrow> ''Running'' | BuildPhaseComplete \<Rightarrow> ''Complete''
     | BuildPhaseFailed \<Rightarrow> ''Failed'' | BuildPhaseError \<Rightarrow> ''Error''
     | BuildPhaseCancelled \<Rightarrow> ''Cancelled'')"

definition podPhaseString :: "PodPhase \<Rightarrow> string" where
  "podPhaseString p = (case p of
       PodPending \<Rightarrow> ''Pending'' | PodRunning \<Rightarrow> ''Running''
     | PodSucceeded \<Rightarrow> ''Succeeded'' | PodFailed \<Rightarrow> ''Failed''
     | PodUnknown \<Rightarrow> ''Unknown'')"

subsection \<open>WaitForBuildToFinish\<close>

text \<open>
  A plain receive loop without a timer, so the passing of the budget changes nothing.
  A closed channel leaves the loop with \<open>break\<close> and the function returns
  \<open>nil\<close>. An object that is not a build is skipped.
\<close>

fun WaitForBuildToFinish_loop :: "Wake list \<Rightarrow> error option outcome" where
  "WaitForBuildToFinish_loop [] = Blocked"
| "WaitForBuildToFinish_loop (TimerFired # rest) = WaitForBuildToFinish_loop rest"
| "WaitForBuildToFinish_loop (Chan Closed # rest) = Returned None"
| "WaitForBuildToFinish_loop (Chan (Event (t, obj)) # rest) =
     (case obj of
        BuildObject e \<Rightarrow>
          (case build_phase e of
             BuildPhaseComplete \<Rightarrow> Returned None
           | BuildPhaseFailed \<Rightarrow>
               Returned (Some (Err (''build '' @ build_name e @ '' status '' @ buildPhaseString (build_phase e))))
           | BuildPhaseCancelled \<Rightarrow>
               Returned (Some (Err (''build '' @ build_name e @ '' status '' @ buildPhaseString (build_phase e))))
           | BuildPhaseError \<Rightarrow>
               Returned (Some (Err (''build '' @ build_name e @ '' status '' @ buildPhaseString (build_phase e))))
           | _ \<Rightarrow> WaitForBuildToFinish_loop rest)
      | _ \<Rightarrow> WaitForBuildToFinish_loop rest)"

definition WaitForBuildToFinish :: "string \<Rightarrow> WatchResult \<Rightarrow> error option run" where
  "WaitForBuildToFinish buildName w =
     (case w of
        WatchFailed err handle_nil \<Rightarrow> (Returned (Some (Wrap ''unable to watch build'' err)), 0)
      | WatchOpened rs \<Rightarrow> deferred_Stop (WaitForBuildToFinish_loop rs))"

subsection \<open>WaitAndGetDC\<close>

text \<open>
  A \<open>select\<close> between the timer and the result channel inside \<open>for\<close>. On a closed
  channel the \<open>break\<close> leaves the \<open>select\<close> only, so the \<open>for\<close> loop goes on to
  its next iteration. \<open>defer w.Stop()\<close> is placed before the error check of
  \<open>Watch\<close>: with a nil handle the method call on the nil interface panics.
\<close>

definition timedOutDC :: error where
  "timedOutDC = Err ''Timed out waiting for annotation to update''"

fun WaitAndGetDC_loop ::
  "string \<Rightarrow> string \<Rightarrow> Wake list \<Rightarrow> (error + DeploymentConfig) outcome" where
  "WaitAndGetDC_loop field val [] = Blocked"
| "WaitAndGetDC_loop field val (TimerFired # rest) = Returned (Inl timedOutDC)"
| "WaitAndGetDC_loop field val (Chan Closed # rest) = WaitAndGetDC_loop field val rest"
| "WaitAndGetDC_loop field val (Chan (Event (t, obj)) # rest) =
     (case obj of
        DCObject e \<Rightarrow>
          (if map_index (om_annotations (dc_meta e)) field = val then Returned (Inr e)
           else WaitAndGetDC_loop field val rest)
      | _ \<Rightarrow> WaitAndGetDC_loop field val rest)"

definition WaitAndGetDC ::
  "string \<Rightarrow> string \<Rightarrow> string \<Rightarrow> WatchResult \<Rightarrow> (error + DeploymentConfig) run" where
  "WaitAndGetDC name field val w =
     (case w of
        WatchFailed err handle_nil \<Rightarrow>
          (if handle_nil then (Panicked, 0)
           else deferred_Stop (Returned (Inl (Wrap ''unable to watch dc'' err))))
      | WatchOpened ws \<Rightarrow> deferred_Stop (WaitAndGetDC_loop field val ws))"

subsection \<open>WaitAndGetPod\<close>

text \<open>
  A background task reads the stream and reports a running pod on one channel or an
  error on another; the caller selects between the two and the timer. The run is
  sequentialised: the list gives, in order, what the reader receives, with
  \<open>TimerFired\<close> at the point where the caller's timer wins the \<open>select\<close>.
\<close>

definition timedOutPod :: "string \<Rightarrow> error" where
  "timedOutPod selector =
     Err (''waited 2m0s but couldn't find running pod matching selector: '' @ [CHR 0x27] @ selector @ [CHR 0x27])"

fun WaitAndGetPod_loop :: "string \<Rightarrow> Wake list \<Rightarrow> (error + Pod) outcome" where
  "WaitAndGetPod_loop selector [] = Blocked"
| "WaitAndGetPod_loop selector (TimerFired # rest) = Returned (Inl (timedOutPod selector))"
| "WaitAndGetPod_loop selector (Chan Closed # rest) = Returned (Inl (Err ''watch channel was closed''))"
| "WaitAndGetPod_loop selector (Chan (Event (t, obj)) # rest) =
     (case obj of
        PodObject e \<Rightarrow>
          (case pod_phase e of
             PodRunning \<Rightarrow> Returned (Inr e)
           | PodFailed \<Rightarrow>
               Returned (Inl (Err (''pod '' @ pod_name e @ '' status '' @ podPhaseString (pod_phase e))))
           | PodUnknown \<Rightarrow>
               Returned (Inl (Err (''pod '' @ pod_name e @ '' status '' @ podPhaseString (pod_phase e))))
           | _ \<Rightarrow> WaitAndGetPod_loop selector rest)
      | _ \<Rightarrow> Returned (Inl (Err ''unable to convert event object to Pod'')))"

definition WaitAndGetPod :: "string \<Rightarrow> WatchResult \<Rightarrow> (error + Pod) run" where
  "WaitAndGetPod selector w =
     (case w of
        WatchFailed err handle_nil \<Rightarrow> (Returned (Inl (Wrap ''unable to watch pod'' err)), 0)
      | WatchOpened ws \<Rightarrow> deferred_Stop (WaitAndGetPod_loop selector ws))"

subsection \<open>WaitAndGetSecret\<close>

text \<open>
  A plain receive loop without a timer, so the passing of the budget changes nothing:
  the first object of secret type is returned, whatever the change type of its event;
  a closed channel ends the loop with an error.
\<close>

definition secretWaitError :: "string \<Rightarrow> error" where
  "secretWaitError name =
     Err (''unknown error while waiting for secret '' @ [CHR 0x27] @ name @ [CHR 0x27])"

fun WaitAndGetSecret_loop :: "string \<Rightarrow> Wake list \<Rightarrow> (error + Secret) outcome" where
  "WaitAndGetSecret_loop name [] = Blocked"
| "WaitAndGetSecret_loop name (TimerFired # rest) = WaitAndGetSecret_loop name rest"
| "WaitAndGetSecret_loop name (Chan Closed # rest) = Returned (Inl (secretWaitError name))"
| "WaitAndGetSecret_loop name (Chan (Event (t, obj)) # rest) =
     (case obj of
        SecretObject e \<Rightarrow> Returned (Inr e)
      | _ \<Rightarrow> WaitAndGetSecret_loop name rest)"

definition WaitAndGetSecret ::
  "string \<Rightarrow> string \<Rightarrow> WatchResult \<Rightarrow> (error + Secret) run" where
  "WaitAndGetSecret name namespace w =
     (case w of
        WatchFailed err handle_nil \<Rightarrow> (Returned (Inl (Wrap ''unable to watch secret'' err)), 0)
      | WatchOpened rs \<Rightarrow> deferred_Stop (WaitAndGetSecret_loop name rs))"

section \<open>Workload patch engine\<close>

subsection \<open>Removing an element from a slice while ranging over it\<close>

text \<open>
  \<open>for i, x := range s { if p x { s = append(s[:i], s[i+1:]...) } }\<close>, as written
  in \<open>removeVolumeFromDC\<close>, \<open>removeVolumeMountFromDC\<close> and
  \<open>removeTracesOfSupervisordFromDC\<close>. The \<open>range\<close> clause fixes the number of
  iterations at the original length and reads element \<open>i\<close> from the backing array,
  which the \<open>append\<close> shifts in place; the slice stored back is one shorter.
  \<open>s[i+1:]\<close> panics when \<open>i + 1\<close> exceeds the current length. The arguments are:
  iterations left, index, backing array, current length, and the \<open>found\<close> flag.
\<close>

fun range_remove ::
  "('a \<Rightarrow> bool) \<Rightarrow> nat \<Rightarrow> nat \<Rightarrow> 'a list \<Rightarrow> nat \<Rightarrow> bool \<Rightarrow> (bool \<times> 'a list) outcome" where
  "range_remove p 0 i arr len found = Returned (found, take len arr)"
| "range_remove p (Suc k) i arr len found =
     (if p (arr ! i) then
        (if len < i + 1 then Panicked
         else range_remove p k (i + 1)
                (take i arr @ drop (i + 1) (take len arr) @ drop (len - 1) arr) (len - 1) True)
      else range_remove p k (i + 1) arr len found)"

definition remove_in_range :: "('a \<Rightarrow> bool) \<Rightarrow> 'a list \<Rightarrow> bool \<Rightarrow> (bool \<times> 'a list) outcome" where
  "remove_in_range p s found = range_remove p (length s) 0 s (length s) found"

definition removeVolumeFromDC :: "string \<Rightarrow> DeploymentConfig \<Rightarrow> (bool \<times> DeploymentConfig) outcome" where
  "removeVolumeFromDC vol dc =
     (case remove_in_range (\<lambda>volume. vol_name volume = vol) (volumes (dc_spec dc)) False of
        Returned (found, vs) \<Rightarrow> Returned (found, dc\<lparr>dc_spec := (dc_spec dc)\<lparr>volumes := vs\<rparr>\<rparr>)
      | Panicked \<Rightarrow> Panicked
      | Blocked \<Rightarrow> Blocked)"

fun removeVolumeMount_containers ::
  "string \<Rightarrow> Container list \<Rightarrow> bool \<Rightarrow> (bool \<times> Container list) outcome" where
  "removeVolumeMount_containers vm [] found = Returned (found, [])"
| "removeVolumeMount_containers vm (container # rest) found =
     (case remove_in_range (\<lambda>volumeMount. vm_name volumeMount = vm) (c_volumeMounts container) found of
        Returned (found1, ms) \<Rightarrow>
          (case removeVolumeMount_containers vm rest found1 of
             Returned (found2, cs) \<Rightarrow> Returned (found2, container\<lparr>c_volumeMounts := ms\<rparr> # cs)
           | Panicked \<Rightarrow> Panicked
           | Blocked \<Rightarrow> Blocked)
      | Panicked \<Rightarrow> Panicked
      | Blocked \<Rightarrow> Blocked)"

definition removeVolumeMountFromDC :: "string \<Rightarrow> DeploymentConfig \<Rightarrow> (bool \<times> DeploymentConfig) outcome" where
  "removeVolumeMountFromDC vm dc =
     (case removeVolumeMount_containers vm (containers (dc_spec dc)) False of
        Returned (found, cs) \<Rightarrow> Returned (found, dc\<lparr>dc_spec := (dc_spec dc)\<lparr>containers := cs\<rparr>\<rparr>)
      | Panicked \<Rightarrow> Panicked
      | Blocked \<Rightarrow> Blocked)"

definition volumeNotFound :: "string \<Rightarrow> error" where
  "volumeNotFound dcName = Err (''unable to find volume in dc with name: '' @ dcName)"

definition volumeMountNotFound :: "string \<Rightarrow> error" where
  "volumeMountNotFound dcName = Err (''unable to find volume mount in dc with name: '' @ dcName)"

definition removeTracesOfSupervisordFromDC ::
  "DeploymentConfig \<Rightarrow> (error + DeploymentConfig) outcome" where
  "removeTracesOfSupervisordFromDC dc =
     (let dcName = om_name (dc_meta dc) in
      case removeVolumeFromDC (getAppRootVolumeName dcName) dc of
        Panicked \<Rightarrow> Panicked
      | Blocked \<Rightarrow> Blocked
      | Returned (found, dc1) \<Rightarrow>
          if \<not> found then Returned (Inl (volumeNotFound dcName))
          else
            (case removeVolumeMountFromDC (getAppRootVolumeName dcName) dc1 of
               Panicked \<Rightarrow> Panicked
             | Blocked \<Rightarrow> Blocked
             | Returned (found', dc2) \<Rightarrow>
                 if \<not> found' then Returned (Inl (volumeMountNotFound dcName))
                 else
                   (case remove_in_range (\<lambda>container. c_name container = ''copy-files-to-volume'')
                           (initContainers (dc_spec dc2)) False of
                      Panicked \<Rightarrow> Panicked
                    | Blocked \<Rightarrow> Blocked
                    | Returned (u, ics) \<Rightarrow>
                        Returned (Inr (dc2\<lparr>dc_spec := (dc_spec dc2)\<lparr>initContainers := ics\<rparr>\<rparr>)))))"

subsection \<open>The cluster\<close>

text \<open>
  The resource client as the patch engine sees it: the stored descriptors, the
  verdict of the API server on an update, what a watch on a descriptor delivers once
  that descriptor has been written, the verdicts on creating and deleting a claim,
  and the log of the updates submitted so far.
\<close>

record Cluster =
  cl_dcs :: "string \<Rightarrow> DeploymentConfig option"
  cl_update_err :: "DeploymentConfig \<Rightarrow> error option"
  cl_watch :: "DeploymentConfig \<Rightarrow> WatchResult"
  cl_createPVC_err :: "string \<Rightarrow> error option"
  cl_deletePVC_err :: "string \<Rightarrow> error option"
  cl_submitted :: "DeploymentConfig list"

definition GetDeploymentConfigFromName :: "Cluster \<Rightarrow> string \<Rightarrow> error + DeploymentConfig" where
  "GetDeploymentConfigFromName c name =
     (case cl_dcs c name of
        None \<Rightarrow> Inl (Wrap (''unable to get DeploymentConfig '' @ name) (Err ''not found''))
      | Some deploymentConfig \<Rightarrow> Inr deploymentConfig)"

definition Update :: "Cluster \<Rightarrow> DeploymentConfig \<Rightarrow> error option \<times> Cluster" where
  "Update c dc =
     (case cl_update_err c dc of
        Some err \<Rightarrow> (Some err, c\<lparr>cl_submitted := cl_submitted c @ [dc]\<rparr>)
      | None \<Rightarrow>
          (None, c\<lparr>cl_dcs := (cl_dcs c)(om_name (dc_meta dc) \<mapsto> dc),
                    cl_submitted := cl_submitted c @ [dc]\<rparr>))"

type_synonym dcStructUpdater = "DeploymentConfig \<Rightarrow> (error + DeploymentConfig) outcome"

definition sourceTypeAnnotation :: string where
  "sourceTypeAnnotation = ''app.kubernetes.io/component-source-type''"

definition PatchCurrentDC ::
  "Cluster \<Rightarrow> string \<Rightarrow> DeploymentConfig \<Rightarrow> dcStructUpdater option \<Rightarrow> error option outcome \<times> Cluster" where
  "PatchCurrentDC c name dc prePatchDCHandler =
     (case GetDeploymentConfigFromName c name of
        Inl err \<Rightarrow> (Returned (Some (Wrap (''unable to get DeploymentConfig '' @ name) err)), c)
      | Inr currentDC \<Rightarrow>
     (case findContainer (containers (dc_spec currentDC)) name of
        Inl err \<Rightarrow>
          (Returned (Some (Wrap (''Unable to find current DeploymentConfig container '' @ name) err)), c)
      | Inr foundCurrentDCContainer \<Rightarrow>
     (let dc1 = copyVolumesAndVolumeMounts dc currentDC foundCurrentDCContainer in
      case (case prePatchDCHandler of None \<Rightarrow> Returned (Inr dc1) | Some h \<Rightarrow> h dc1) of
        Panicked \<Rightarrow> (Panicked, c)
      | Blocked \<Rightarrow> (Blocked, c)
      | Returned (Inl err) \<Rightarrow>
          (Returned (Some (Wrap (''Unable to correctly update dc '' @ name
                                  @ '' using the specified prePatch handler'') err)), c)
      | Returned (Inr dc2) \<Rightarrow>
     (let newDC = currentDC\<lparr>dc_spec := dc_spec dc2,
                    dc_meta := (dc_meta currentDC)\<lparr>om_annotations := om_annotations (dc_meta dc2),
                                                    om_labels := om_labels (dc_meta dc2)\<rparr>\<rparr>
      in case Update c newDC of
        (Some err, c1) \<Rightarrow> (Returned (Some (Wrap (''unable to update DeploymentConfig '' @ name) err)), c1)
      | (None, c1) \<Rightarrow>
     (case fst (WaitAndGetDC name sourceTypeAnnotation
                 (map_index (om_annotations (dc_meta dc2)) sourceTypeAnnotation) (cl_watch c1 newDC)) of
        Panicked \<Rightarrow> (Panicked, c1)
      | Blocked \<Rightarrow> (Blocked, c1)
      | Returned (Inl err) \<Rightarrow>
          (Returned (Some (Wrap (''unable to wait for DeploymentConfig '' @ name @ '' to update'') err)), c1)
      | Returned (Inr u) \<Rightarrow> (Returned None, c1))))))"

subsection \<open>Switching between build mode and dev mode\<close>

text \<open>
  Modelled from the spec: \<open>generateGitDeploymentConfig\<close>, whose body is not part of
  the sources at hand. The spec computes the desired descriptor of build mode from the
  identity, the image, and the ports and environment of the current container; the
  descriptor so generated has one container, named after the workload, and carries no
  volume, no volume mount and no init container of its own.
\<close>

definition generateGitDeploymentConfig ::
  "ObjectMeta \<Rightarrow> string \<Rightarrow> (nat \<times> Protocol) list \<Rightarrow> (string \<times> string) list \<Rightarrow> DeploymentConfig" where
  "generateGitDeploymentConfig commonObjectMeta imageName containerPorts envVars =
     \<lparr>dc_meta = commonObjectMeta,
      dc_spec = \<lparr>containers = [\<lparr>c_name = om_name commonObjectMeta, c_image = imageName,
                                c_ports = containerPorts, c_env = envVars, c_volumeMounts = []\<rparr>],
                 initContainers = [], volumes = []\<rparr>\<rparr>"

text \<open>
  Modelled from the spec: \<open>generateSupervisordDeploymentConfig\<close>, whose body is not
  part of the sources at hand. The spec computes the desired descriptor of dev mode
  from the identity, the image, the ports and the merged environment; the scratch
  volume, its mount and the init containers are appended to it afterwards.
\<close>

definition generateSupervisordDeploymentConfig ::
  "ObjectMeta \<Rightarrow> string \<Rightarrow> (nat \<times> Protocol) list \<Rightarrow> (string \<times> string) list \<Rightarrow> DeploymentConfig" where
  "generateSupervisordDeploymentConfig commonObjectMeta builderImage containerPorts envVars =
     \<lparr>dc_meta = commonObjectMeta,
      dc_spec = \<lparr>containers = [\<lparr>c_name = om_name commonObjectMeta, c_image = builderImage,
                                c_ports = containerPorts, c_env = envVars, c_volumeMounts = []\<rparr>],
                 initContainers = [], volumes = []\<rparr>\<rparr>"

definition bootstrapperImage :: string where
  "bootstrapperImage = ''quay.io/openshiftdo/supervisord:0.3.0''"

text \<open>
  Modelled from the spec: \<open>addBootstrapVolumeCopyInitContainer\<close>, whose body is not
  part of the sources at hand. It appends the init container that copies the bootstrap
  data into the scratch volume; the revert hook removes it under the name
  \<open>copy-files-to-volume\<close>.
\<close>

definition addBootstrapVolumeCopyInitContainer :: "DeploymentConfig \<Rightarrow> string \<Rightarrow> DeploymentConfig" where
  "addBootstrapVolumeCopyInitContainer dc dcName =
     dc\<lparr>dc_spec := (dc_spec dc)\<lparr>initContainers := initContainers (dc_spec dc) @
        [\<lparr>c_name = ''copy-files-to-volume'',
          c_image = (case containers (dc_spec dc) of [] \<Rightarrow> [] | c # u \<Rightarrow> c_image c),
          c_ports = [], c_env = [],
          c_volumeMounts = [\<lparr>vm_name = getAppRootVolumeName dcName, vm_mountPath = ''/mnt''\<rparr>]\<rparr>]\<rparr>\<rparr>"

text \<open>
  Modelled from the spec: \<open>addBootstrapSupervisordInitContainer\<close>, whose body is not
  part of the sources at hand. It appends the init container that stages the
  supervisory binary.
\<close>

definition addBootstrapSupervisordInitContainer :: "DeploymentConfig \<Rightarrow> string \<Rightarrow> DeploymentConfig" where
  "addBootstrapSupervisordInitContainer dc dcName =
     dc\<lparr>dc_spec := (dc_spec dc)\<lparr>initContainers := initContainers (dc_spec dc) @
        [\<lparr>c_name = ''copy-supervisord'', c_image = bootstrapperImage,
          c_ports = [], c_env = [],
          c_volumeMounts = [\<lparr>vm_name = supervisordVolumeName,
                             vm_mountPath = ''/var/lib/supervisord''\<rparr>]\<rparr>]\<rparr>\<rparr>"

text \<open>
  Modelled from the spec: \<open>addBootstrapVolume\<close>, whose body is not part of the
  sources at hand. It appends the one scratch volume; the volume carries the name that
  the revert hook looks for and is backed by the claim of the same name that is
  provisioned after the patch.
\<close>

definition addBootstrapVolume :: "DeploymentConfig \<Rightarrow> string \<Rightarrow> DeploymentConfig" where
  "addBootstrapVolume dc dcName =
     dc\<lparr>dc_spec := (dc_spec dc)\<lparr>volumes := volumes (dc_spec dc) @
        [\<lparr>vol_name = getAppRootVolumeName dcName,
          vol_source = PersistentVolumeClaim (getAppRootVolumeName dcName)\<rparr>]\<rparr>\<rparr>"

text \<open>
  Modelled from the spec: \<open>addBootstrapVolumeMount\<close>, whose body is not part of the
  sources at hand. It appends the mount matching the scratch volume to the primary
  container, the one named after the workload.
\<close>

definition addBootstrapVolumeMount :: "DeploymentConfig \<Rightarrow> string \<Rightarrow> DeploymentConfig" where
  "addBootstrapVolumeMount dc dcName =
     dc\<lparr>dc_spec := (dc_spec dc)\<lparr>containers :=
        map (\<lambda>container.
               if c_name container = dcName
               then container\<lparr>c_volumeMounts := c_volumeMounts container @
                      [\<lparr>vm_name = getAppRootVolumeName dcName, vm_mountPath = ''/opt/app-root''\<rparr>]\<rparr>
               else container)
            (containers (dc_spec dc))\<rparr>\<rparr>"

definition DeletePVC :: "Cluster \<Rightarrow> string \<Rightarrow> error option" where
  "DeletePVC c name = cl_deletePVC_err c name"

definition CreatePVC :: "Cluster \<Rightarrow> string \<Rightarrow> error option" where
  "CreatePVC c name = cl_createPVC_err c name"

definition UpdateDCToGit :: "Cluster \<Rightarrow> ObjectMeta \<Rightarrow> string \<Rightarrow> error option outcome \<times> Cluster" where
  "UpdateDCToGit c commonObjectMeta imageName =
     (if imageName = [] then (Returned (Some (Err ''UpdateDCToGit imageName cannot be blank'')), c)
      else
     (case GetDeploymentConfigFromName c (om_name commonObjectMeta) of
        Inl err \<Rightarrow>
          (Returned (Some (Wrap (''unable to get DeploymentConfig '' @ om_name commonObjectMeta) err)), c)
      | Inr currentDC \<Rightarrow>
     (case findContainer (containers (dc_spec currentDC)) (om_name commonObjectMeta) of
        Inl err \<Rightarrow>
          (Returned (Some (Wrap (''Unable to find container '' @ om_name commonObjectMeta) err)), c)
      | Inr foundCurrentDCContainer \<Rightarrow>
     (let dc = generateGitDeploymentConfig commonObjectMeta imageName
                 (c_ports foundCurrentDCContainer) (c_env foundCurrentDCContainer)
      in case PatchCurrentDC c (om_name commonObjectMeta) dc (Some removeTracesOfSupervisordFromDC) of
        (Returned None, c1) \<Rightarrow>
          (case DeletePVC c1 (getAppRootVolumeName (om_name commonObjectMeta)) of
             Some err \<Rightarrow>
               (Returned (Some (Wrap (''unable to delete S2I data PVC from '' @ om_name commonObjectMeta) err)), c1)
           | None \<Rightarrow> (Returned None, c1))
      | (Returned (Some err), c1) \<Rightarrow>
          (Returned (Some (Wrap (''unable to update the current DeploymentConfig ''
                                  @ om_name commonObjectMeta) err)), c1)
      | (Panicked, c1) \<Rightarrow> (Panicked, c1)
      | (Blocked, c1) \<Rightarrow> (Blocked, c1)))))"

text \<open>
  \<open>UpdateDCToSupervisor\<close>. Before the current descriptor is read, the image name
  is parsed and the image stream and its image are looked up; each of the three steps
  returns its own wrapped error. They depend on the image streams of the cluster
  only, so their verdicts are taken as given, in \<open>ImageLookup\<close>. After the
  primary container has been found, \<open>GetS2IPathsFromBuilderImg\<close> may fail; when it
  succeeds the environment of the container is merged with the four bootstrap keys.
  \<open>inputEnvs\<close> stands for that step and the merge, whose order Go's map iteration
  leaves open.
\<close>

record ImageLookup =
  il_ParseImageName_err :: "error option"
  il_GetImageStream_err :: "error option"
  il_GetImageStreamImage_err :: "error option"

definition UpdateDCToSupervisor ::
  "Cluster \<Rightarrow> ObjectMeta \<Rightarrow> string \<Rightarrow> ImageLookup
     \<Rightarrow> (Container \<Rightarrow> error + (string \<times> string) list)
     \<Rightarrow> error option outcome \<times> Cluster" where
  "UpdateDCToSupervisor c commonObjectMeta componentImageType lookup inputEnvs =
     (case il_ParseImageName_err lookup of
        Some err \<Rightarrow>
          (Returned (Some (Wrap ''unable to parse image name for DeploymentConfig update'' err)), c)
      | None \<Rightarrow>
     (case il_GetImageStream_err lookup of
        Some err \<Rightarrow>
          (Returned (Some (Wrap ''unable to get image stream for CreateBuildConfig'' err)), c)
      | None \<Rightarrow>
     (case il_GetImageStreamImage_err lookup of
        Some err \<Rightarrow> (Returned (Some (Wrap ''unable to bootstrap supervisord'' err)), c)
      | None \<Rightarrow>
     (case GetDeploymentConfigFromName c (om_name commonObjectMeta) of
        Inl err \<Rightarrow>
          (Returned (Some (Wrap (''unable to get DeploymentConfig '' @ om_name commonObjectMeta) err)), c)
      | Inr currentDC \<Rightarrow>
     (case findContainer (containers (dc_spec currentDC)) (om_name commonObjectMeta) of
        Inl err \<Rightarrow>
          (Returned (Some (Wrap (''Unable to find container '' @ om_name commonObjectMeta) err)), c)
      | Inr foundCurrentDCContainer \<Rightarrow>
     (case inputEnvs foundCurrentDCContainer of
        Inl err \<Rightarrow> (Returned (Some (Wrap ''unable to bootstrap supervisord'' err)), c)
      | Inr envs \<Rightarrow>
     (let dc0 = generateSupervisordDeploymentConfig commonObjectMeta componentImageType
                  (c_ports foundCurrentDCContainer) envs;
          dc1 = addBootstrapVolumeCopyInitContainer dc0 (om_name commonObjectMeta);
          dc2 = addBootstrapSupervisordInitContainer dc1 (om_name commonObjectMeta);
          dc3 = addBootstrapVolume dc2 (om_name commonObjectMeta);
          dc = addBootstrapVolumeMount dc3 (om_name commonObjectMeta)
      in case PatchCurrentDC c (om_name commonObjectMeta) dc None of
        (Returned None, c1) \<Rightarrow>
          (case CreatePVC c1 (getAppRootVolumeName (om_name commonObjectMeta)) of
             Some err \<Rightarrow>
               (Returned (Some (Wrap (''unable to create PVC for '' @ om_name commonObjectMeta) err)), c1)
           | None \<Rightarrow> (Returned None, c1))
      | (Returned (Some err), c1) \<Rightarrow>
          (Returned (Some (Wrap (''unable to update the current DeploymentConfig ''
                                  @ om_name commonObjectMeta) err)), c1)
      | (Panicked, c1) \<Rightarrow> (Panicked, c1)
      | (Blocked, c1) \<Rightarrow> (Blocked, c1))))))))"

section \<open>File synchronization transport\<close>

subsection \<open>Slash-separated paths\<close>

text \<open>
  The functions of Go's \<open>path\<close> package that the transport calls. They know one
  separator only, the forward slash; a backslash is an ordinary character of a name.
  \<open>path_Clean\<close> follows the rules of the package: empty and \<open>.\<close> elements are
  dropped, an inner \<open>..\<close> removes the element before it, a \<open>..\<close> at the start of a
  rooted path is dropped, and the empty result is \<open>.\<close>. The stack of elements is
  kept with its top first.
\<close>

fun split_slash :: "string \<Rightarrow> string list" where
  "split_slash [] = [[]]"
| "split_slash (c # cs) =
     (if c = CHR ''/'' then [] # split_slash cs
      else (case split_slash cs of [] \<Rightarrow> [[c]] | x # xs \<Rightarrow> (c # x) # xs))"

fun join_slash :: "string list \<Rightarrow> string" where
  "join_slash [] = []"
| "join_slash [x] = x"
| "join_slash (x # y # ys) = x @ ''/'' @ join_slash (y # ys)"

definition clean_step :: "bool \<Rightarrow> string list \<Rightarrow> string \<Rightarrow> string list" where
  "clean_step rooted st elem =
     (if elem = [] \<or> elem = ''.'' then st
      else if elem = ''..'' then
        (case st of
           [] \<Rightarrow> (if rooted then [] else [''..''])
         | t # ts \<Rightarrow> (if t = ''..'' then ''..'' # st else ts))
      else elem # st)"

definition path_Clean :: "string \<Rightarrow> string" where
  "path_Clean p =
     (if p = [] then ''.''
      else
        (let rooted = (hd p = CHR ''/'');
             st = foldl (clean_step rooted) [] (split_slash p);
             out = (if rooted then ''/'' else []) @ join_slash (rev st)
         in if out = [] then ''.'' else out))"

definition strip_trailing_slashes :: "string \<Rightarrow> string" where
  "strip_trailing_slashes p = rev (dropWhile (\<lambda>c. c = CHR ''/'') (rev p))"

definition after_last_slash :: "string \<Rightarrow> string" where
  "after_last_slash p = rev (takeWhile (\<lambda>c. c \<noteq> CHR ''/'') (rev p))"

definition path_Base :: "string \<Rightarrow> string" where
  "path_Base p =
     (if p = [] then ''.''
      else
        (let q = after_last_slash (strip_trailing_slashes p)
         in if q = [] then ''/'' else q))"

definition path_Dir :: "string \<Rightarrow> string" where
  "path_Dir p = path_Clean (rev (dropWhile (\<lambda>c. c \<noteq> CHR ''/'') (rev p)))"

definition path_Join :: "string list \<Rightarrow> string" where
  "path_Join elem =
     (let parts = filter (\<lambda>e. e \<noteq> []) elem
      in if parts = [] then [] else path_Clean (join_slash parts))"

subsection \<open>The host and the archive\<close>

text \<open>
  What the transport asks of the local host: \<open>os.Lstat\<close> (no result on error),
  whether \<open>os.Stat\<close> reports that a path does not exist, \<open>ioutil.ReadDir\<close> (the
  names of the entries), \<open>os.Readlink\<close>, whether \<open>os.Open\<close> succeeds, whether
  writing a header of a given name and copying the bytes of a given file into the pipe
  succeed, the host's \<open>filepath.Base\<close>, and the result of the remote exec. A socket
  stands for the kinds of file for which \<open>FileInfoHeader\<close> fails.
\<close>

datatype FileKind = Directory | Symlink | Regular | Socket

record Host =
  h_Lstat :: "string \<Rightarrow> FileKind option"
  h_Stat_notExist :: "string \<Rightarrow> bool"
  h_ReadDir :: "string \<Rightarrow> string list option"
  h_Readlink :: "string \<Rightarrow> string option"
  h_Open_ok :: "string \<Rightarrow> bool"
  h_WriteHeader_ok :: "string \<Rightarrow> bool"
  h_Copy_ok :: "string \<Rightarrow> bool"
  h_filepath_Base :: "string \<Rightarrow> string"
  h_Exec_err :: "string \<Rightarrow> string list \<Rightarrow> error option"

record TarHeader =
  hdr_Name :: string
  hdr_Typeflag :: FileKind
  hdr_Linkname :: string

datatype TarItem = Header TarHeader | Data string

definition WriteHeader :: "Host \<Rightarrow> TarItem list \<Rightarrow> TarHeader \<Rightarrow> error + TarItem list" where
  "WriteHeader H tw hdr =
     (if h_WriteHeader_ok H (hdr_Name hdr) then Inr (tw @ [Header hdr])
      else Inl (Err (''write '' @ hdr_Name hdr)))"

definition isSingleFileTransfer :: "Host \<Rightarrow> string list \<Rightarrow> bool" where
  "isSingleFileTransfer H copyFiles =
     (case copyFiles of
        [f] \<Rightarrow> (case h_Lstat H f of Some stat \<Rightarrow> stat \<noteq> Directory | None \<Rightarrow> False)
      | _ \<Rightarrow> False)"

definition checkFileExist :: "Host \<Rightarrow> string \<Rightarrow> bool" where
  "checkFileExist H fileName = (\<not> h_Stat_notExist H fileName)"

text \<open>
  \<open>recursiveTar\<close> descends through the directory tree of the host, so its recursion
  is bounded by a depth budget here; \<open>None\<close> means that the budget did not suffice.
  The result is the error (if any) and the archive written so far.
\<close>

fun recursiveTar ::
    "nat \<Rightarrow> Host \<Rightarrow> string \<Rightarrow> string \<Rightarrow> string \<Rightarrow> string \<Rightarrow> TarItem list
       \<Rightarrow> (error option \<times> TarItem list) option"
  and recursiveTar_files ::
    "nat \<Rightarrow> Host \<Rightarrow> string \<Rightarrow> string \<Rightarrow> string \<Rightarrow> string \<Rightarrow> string list \<Rightarrow> TarItem list
       \<Rightarrow> (error option \<times> TarItem list) option" where
  "recursiveTar 0 H srcBase srcFile destBase destFile tw = None"
| "recursiveTar (Suc n) H srcBase srcFile destBase destFile tw =
     (let filepath = path_Join [srcBase, srcFile] in
      case h_Lstat H filepath of
        None \<Rightarrow> Some (Some (Err (''lstat '' @ filepath)), tw)
      | Some Directory \<Rightarrow>
          (case h_ReadDir H filepath of
             None \<Rightarrow> Some (Some (Err (''open '' @ filepath)), tw)
           | Some files \<Rightarrow>
               (case (if files = []
                      then WriteHeader H tw \<lparr>hdr_Name = destFile, hdr_Typeflag = Directory, hdr_Linkname = []\<rparr>
                      else Inr tw) of
                  Inl err \<Rightarrow> Some (Some err, tw)
                | Inr tw1 \<Rightarrow> recursiveTar_files n H srcBase srcFile destBase destFile files tw1))
      | Some Symlink \<Rightarrow>
          (case h_Readlink H filepath of
             None \<Rightarrow> Some (Some (Err (''readlink '' @ filepath)), tw)
           | Some target \<Rightarrow>
               (case WriteHeader H tw \<lparr>hdr_Name = destFile, hdr_Typeflag = Symlink, hdr_Linkname = target\<rparr> of
                  Inl err \<Rightarrow> Some (Some err, tw)
                | Inr tw1 \<Rightarrow> Some (None, tw1)))
      | Some Socket \<Rightarrow> Some (Some (Err ''archive/tar: sockets not supported''), tw)
      | Some Regular \<Rightarrow>
          (case WriteHeader H tw \<lparr>hdr_Name = destFile, hdr_Typeflag = Regular, hdr_Linkname = []\<rparr> of
             Inl err \<Rightarrow> Some (Some err, tw)
           | Inr tw1 \<Rightarrow>
               if \<not> h_Open_ok H filepath then Some (Some (Err (''open '' @ filepath)), tw1)
               else if \<not> h_Copy_ok H filepath then Some (Some (Err (''copy '' @ filepath)), tw1)
               else Some (None, tw1 @ [Data filepath])))"
| "recursiveTar_files n H srcBase srcFile destBase destFile [] tw = Some (None, tw)"
| "recursiveTar_files n H srcBase srcFile destBase destFile (f # rest) tw =
     (case recursiveTar n H srcBase (path_Join [srcFile, f]) destBase (path_Join [destFile, f]) tw of
        None \<Rightarrow> None
      | Some (Some err, tw1) \<Rightarrow> Some (Some err, tw1)
      | Some (None, tw1) \<Rightarrow> recursiveTar_files n H srcBase srcFile destBase destFile rest tw1)"

text \<open>
  \<open>makeTar\<close>: with a non-empty list of files, the first file that exists starts the
  walk of the whole source path and its result is returned; when no file of the list
  exists the loop ends and \<open>nil\<close> is returned with nothing written.
\<close>

fun makeTar_files ::
  "nat \<Rightarrow> Host \<Rightarrow> string \<Rightarrow> string \<Rightarrow> TarItem list \<Rightarrow> string list
     \<Rightarrow> (error option \<times> TarItem list) option" where
  "makeTar_files n H srcPath destPath tw [] = Some (None, tw)"
| "makeTar_files n H srcPath destPath tw (fileName # rest) =
     (if checkFileExist H fileName
      then recursiveTar n H (path_Dir srcPath) (path_Base srcPath) (path_Dir destPath) (path_Base destPath) tw
      else makeTar_files n H srcPath destPath tw rest)"

definition makeTar ::
  "nat \<Rightarrow> Host \<Rightarrow> string \<Rightarrow> string \<Rightarrow> TarItem list \<Rightarrow> string list
     \<Rightarrow> (error option \<times> TarItem list) option" where
  "makeTar n H srcPath0 destPath0 tw files =
     (let srcPath = path_Clean srcPath0; destPath = path_Clean destPath0 in
      if files \<noteq> [] then makeTar_files n H srcPath destPath tw files
      else recursiveTar n H (path_Dir srcPath) (path_Base srcPath) (path_Dir destPath) (path_Base destPath) tw)"

text \<open>
  \<open>CopyFile\<close>. The archive is built by a background task that writes into a pipe
  while the remote exec reads from it. On an error of \<open>makeTar\<close> that task logs the
  error and calls \<open>os.Exit(-1)\<close>, which ends the process; otherwise the result of
  the call is the result of the exec. The run is sequentialised: the producer comes
  first, then the exec.
\<close>

datatype CopyOutcome = Exited int | Done "error option"

record CopyRun =
  cr_outcome :: CopyOutcome
  cr_archive :: "TarItem list"
  cr_cmdArr :: "string list"

definition archive_producer ::
  "nat \<Rightarrow> Host \<Rightarrow> string \<Rightarrow> string \<Rightarrow> string list \<Rightarrow> (error option \<times> TarItem list) option" where
  "archive_producer n H localPath targetPath copyFiles =
     (let dest = path_Join [targetPath, h_filepath_Base H localPath] in
      if isSingleFileTransfer H copyFiles
      then makeTar n H (hd copyFiles) (targetPath @ ''/'' @ path_Base (hd copyFiles)) [] []
      else makeTar n H localPath dest [] copyFiles)"

definition CopyFile ::
  "nat \<Rightarrow> Host \<Rightarrow> string \<Rightarrow> string \<Rightarrow> string \<Rightarrow> string list \<Rightarrow> CopyRun option" where
  "CopyFile n H localPath targetPodName targetPath copyFiles =
     (let cmdArr = [''tar'', ''xf'', ''-'', ''-C'', targetPath]
                     @ (if \<not> isSingleFileTransfer H copyFiles then [''--strip'', ''1''] else [])
      in case archive_producer n H localPath targetPath copyFiles of
           None \<Rightarrow> None
         | Some (Some err, tw) \<Rightarrow>
             Some \<lparr>cr_outcome = Exited (- 1), cr_archive = tw, cr_cmdArr = cmdArr\<rparr>
         | Some (None, tw) \<Rightarrow>
             Some \<lparr>cr_outcome = Done (h_Exec_err H targetPodName cmdArr), cr_archive = tw,
                   cr_cmdArr = cmdArr\<rparr>)"


text \<open>Whether what happens is the delivery of an object of secret type.\<close>

fun carries_secret :: "Wake \<Rightarrow> bool" where
  "carries_secret (Chan (Event (t, SecretObject e))) = True"
| "carries_secret w = False"


section \<open>Example inputs\<close>

text \<open>
  A workload \<open>web\<close> with one container of the same name, on a cluster that accepts
  every update and whose watch delivers the written descriptor.
\<close>

definition ex_meta :: "string \<Rightarrow> ObjectMeta" where
  "ex_meta sourceType =
     \<lparr>om_name = ''web'', om_resourceVersion = 7,
      om_annotations = [(sourceTypeAnnotation, sourceType)], om_labels = []\<rparr>"

definition ex_data :: Volume where
  "ex_data = \<lparr>vol_name = ''data'', vol_source = PersistentVolumeClaim ''data-claim''\<rparr>"

definition ex_cache :: Volume where
  "ex_cache = \<lparr>vol_name = ''cache'', vol_source = EmptyDir\<rparr>"

definition ex_data_mount :: VolumeMount where
  "ex_data_mount = \<lparr>vm_name = ''data'', vm_mountPath = ''/data''\<rparr>"

definition ex_cache_mount :: VolumeMount where
  "ex_cache_mount = \<lparr>vm_name = ''cache'', vm_mountPath = ''/cache''\<rparr>"

definition ex_container :: "VolumeMount list \<Rightarrow> Container" where
  "ex_container ms =
     \<lparr>c_name = ''web'', c_image = ''web:latest'', c_ports = [(8080, TCP)],
      c_env = [(''A'', ''1'')], c_volumeMounts = ms\<rparr>"

definition ex_dc :: "VolumeMount list \<Rightarrow> Volume list \<Rightarrow> DeploymentConfig" where
  "ex_dc ms vs =
     \<lparr>dc_meta = ex_meta ''git'',
      dc_spec = \<lparr>containers = [ex_container ms], initContainers = [], volumes = vs\<rparr>\<rparr>"

definition ex_cluster :: "DeploymentConfig \<Rightarrow> Cluster" where
  "ex_cluster d =
     \<lparr>cl_dcs = [om_name (dc_meta d) \<mapsto> d], cl_update_err = (\<lambda>u. None),
      cl_watch = (\<lambda>d. WatchOpened [Chan (Event (MODIFIED, DCObject d))]),
      cl_createPVC_err = (\<lambda>u. None), cl_deletePVC_err = (\<lambda>u. None), cl_submitted = []\<rparr>"

text \<open>Parsing the image name and both image lookups succeed.\<close>

definition ex_lookup :: ImageLookup where
  "ex_lookup =
     \<lparr>il_ParseImageName_err = None, il_GetImageStream_err = None,
      il_GetImageStreamImage_err = None\<rparr>"




definition backslash_file :: string where
  "backslash_file = ''src'' @ [CHR 0x5C] @ ''b.txt''"

definition backslash_entry :: string where
  "backslash_entry = ''a'' @ [CHR 0x5C] @ ''b''"

definition ex_backslash_host :: Host where
  "ex_backslash_host =
     \<lparr>h_Lstat = (\<lambda>p. if p = backslash_file then Some Regular
                      else if p = ''dir'' then Some Directory
                      else if p = ''dir/'' @ backslash_entry then Some Regular else None),
      h_Stat_notExist = (\<lambda>p. p \<notin> {backslash_file, ''dir'', ''dir/'' @ backslash_entry}),
      h_ReadDir = (\<lambda>p. if p = ''dir'' then Some [backslash_entry] else None),
      h_Readlink = (\<lambda>p. None),
      h_Open_ok = (\<lambda>p. True), h_WriteHeader_ok = (\<lambda>p. True), h_Copy_ok = (\<lambda>p. True),
      h_filepath_Base = path_Base, h_Exec_err = (\<lambda>p c. None)\<rparr>"

section \<open>Properties of the patch engine\<close>

lemmas ex_defs = ex_cluster_def ex_dc_def ex_meta_def ex_container_def
  ex_data_def ex_cache_def ex_data_mount_def ex_cache_mount_def

lemmas patch_defs = PatchCurrentDC_def GetDeploymentConfigFromName_def
  findContainer_def copyVolumesAndVolumeMounts_def Update_def WaitAndGetDC_def
  deferred_Stop_def map_index_def sourceTypeAnnotation_def supervisordVolumeName_def Let_def

lemmas mode_defs = UpdateDCToSupervisor_def UpdateDCToGit_def
  generateSupervisordDeploymentConfig_def generateGitDeploymentConfig_def
  addBootstrapVolumeCopyInitContainer_def addBootstrapSupervisordInitContainer_def
  addBootstrapVolume_def addBootstrapVolumeMount_def getAppRootVolumeName_def
  CreatePVC_def DeletePVC_def bootstrapperImage_def
  removeTracesOfSupervisordFromDC_def removeVolumeFromDC_def removeVolumeMountFromDC_def
  remove_in_range_def

text \<open>
  C1: the copy step of \<open>PatchCurrentDC\<close> does not carry every volume and mount
  forward. The current descriptor has the volumes \<open>data\<close> and \<open>cache\<close>, both mounted
  in the primary container and neither of them the supervisord volume; the update
  that is submitted holds \<open>data\<close> and its mount only, because the loops stop after
  the first element they copy.
\<close>

theorem PatchCurrentDC_copies_first_volume_only:
  "PatchCurrentDC (ex_cluster (ex_dc [ex_data_mount, ex_cache_mount] [ex_data, ex_cache]))
      ''web'' (ex_dc [] []) None
   = (Returned None,
      (ex_cluster (ex_dc [ex_data_mount] [ex_data]))
        \<lparr>cl_submitted := [ex_dc [ex_data_mount] [ex_data]]\<rparr>)"
  by (simp add: patch_defs ex_defs)

text \<open>
  C2: switching to dev mode and back is not a no-op on volumes and mounts. The
  workload starts in build mode with the volume \<open>data\<close> mounted in its container;
  both switches succeed, and the descriptor found on the cluster afterwards has no
  volume and no mount: on the way back the copy step takes the scratch volume as the
  first one and stops, and the hook then removes it.
\<close>

theorem dev_then_build_loses_user_volume:
  "(case UpdateDCToSupervisor (ex_cluster (ex_dc [ex_data_mount] [ex_data])) (ex_meta ''local'')
             ''nodejs:latest'' ex_lookup (\<lambda>k. Inr (c_env k)) of
      (r1, c1) \<Rightarrow>
        (case UpdateDCToGit c1 (ex_meta ''git'') ''web:latest'' of
           (r2, c2) \<Rightarrow> (r1, r2, cl_dcs c2 ''web'')))
   = (Returned None, Returned None, Some (ex_dc [] []))"
  by (simp add: patch_defs ex_defs mode_defs ex_lookup_def)

subsection \<open>Removal loops on slices without a second match\<close>

lemma range_remove_no_match:
  "(\<And>j. i \<le> j \<Longrightarrow> j < i + k \<Longrightarrow> \<not> p (arr ! j)) \<Longrightarrow>
   range_remove p k i arr len found = Returned (found, take len arr)"
proof (induction k arbitrary: i)
  case 0
  then show ?case by simp
next
  case (Suc k)
  have "\<not> p (arr ! i)" using Suc.prems[of i] by simp
  moreover have "range_remove p k (i + 1) arr len found = Returned (found, take len arr)"
    using Suc.prems by (intro Suc.IH) auto
  ultimately show ?case by simp
qed

lemma remove_in_range_no_match:
  assumes "\<forall>x \<in> set s. \<not> p x"
  shows "remove_in_range p s found = Returned (found, s)"
proof -
  have "range_remove p (length s) 0 s (length s) found = Returned (found, take (length s) s)"
    using assms by (intro range_remove_no_match) simp
  then show ?thesis by (simp add: remove_in_range_def)
qed

lemma range_remove_skip:
  "(\<And>j. i \<le> j \<Longrightarrow> j < i + k \<Longrightarrow> \<not> p (arr ! j)) \<Longrightarrow>
   range_remove p (k + k') i arr len found = range_remove p k' (i + k) arr len found"
proof (induction k arbitrary: i)
  case 0
  then show ?case by simp
next
  case (Suc k)
  have "\<not> p (arr ! i)" using Suc.prems[of i] by simp
  moreover have "range_remove p (k + k') (i + 1) arr len found
                   = range_remove p k' (i + 1 + k) arr len found"
    using Suc.prems by (intro Suc.IH) auto
  ultimately show ?case by simp
qed

lemma remove_in_range_last:
  assumes "\<forall>x \<in> set s. \<not> p x" and "p v"
  shows "remove_in_range p (s @ [v]) found = Returned (True, s)"
proof -
  let ?arr = "s @ [v]"
  have skip: "range_remove p (length s + 1) 0 ?arr (length s + 1) found
        = range_remove p 1 (0 + length s) ?arr (length s + 1) found"
    using assms(1) by (intro range_remove_skip) (simp add: nth_append)
  have "range_remove p (Suc 0) (length s) ?arr (Suc (length s)) found = Returned (True, s)"
    using assms(2) by simp
  with skip show ?thesis by (simp add: remove_in_range_def)
qed

lemma copy_volumes_loop_cases:
  "copy_volumes_loop cur acc = acc \<or> (\<exists>v \<in> set cur. copy_volumes_loop cur acc = acc @ [v])"
  by (induction cur) auto

lemma copy_mounts_loop_cases:
  "copy_mounts_loop cur acc = acc \<or> (\<exists>v \<in> set cur. copy_mounts_loop cur acc = acc @ [v])"
  by (induction cur) auto

lemma removeVolumeMount_containers_no_match:
  assumes "\<forall>k \<in> set cs. \<forall>m \<in> set (c_volumeMounts k). vm_name m \<noteq> vm"
  shows "removeVolumeMount_containers vm cs found = Returned (found, cs)"
  using assms
proof (induction cs arbitrary: found)
  case Nil
  then show ?case by simp
next
  case (Cons k cs)
  have "remove_in_range (\<lambda>volumeMount. vm_name volumeMount = vm) (c_volumeMounts k) found
          = Returned (found, c_volumeMounts k)"
    using Cons.prems by (intro remove_in_range_no_match) simp
  moreover have "removeVolumeMount_containers vm cs found = Returned (found, cs)"
    using Cons.prems by (intro Cons.IH) simp
  ultimately show ?case by simp
qed

lemma removeVolumeFromDC_absent:
  assumes "\<forall>v \<in> set (volumes (dc_spec d)). vol_name v \<noteq> vol"
  shows "removeVolumeFromDC vol d = Returned (False, d)"
  using remove_in_range_no_match[of "volumes (dc_spec d)" "\<lambda>volume. vol_name volume = vol" False] assms
  by (simp add: removeVolumeFromDC_def)

lemma removeVolumeFromDC_last:
  assumes "\<forall>v \<in> set vs0. vol_name v \<noteq> vol" and "volumes (dc_spec d) = vs0 @ [v]"
      and "vol_name v = vol"
  shows "removeVolumeFromDC vol d = Returned (True, d\<lparr>dc_spec := (dc_spec d)\<lparr>volumes := vs0\<rparr>\<rparr>)"
  using remove_in_range_last[of vs0 "\<lambda>volume. vol_name volume = vol" v False] assms
  by (simp add: removeVolumeFromDC_def)

lemma removeVolumeMountFromDC_absent:
  assumes "\<forall>k \<in> set (containers (dc_spec d)). \<forall>m \<in> set (c_volumeMounts k). vm_name m \<noteq> vm"
  shows "removeVolumeMountFromDC vm d = Returned (False, d)"
  using removeVolumeMount_containers_no_match[OF assms, of False]
  by (simp add: removeVolumeMountFromDC_def)

subsection \<open>Reverting a workload without the scratch volume or its mount\<close>

lemma removeTraces_volume_absent:
  assumes "\<forall>v \<in> set (volumes (dc_spec d)). vol_name v \<noteq> getAppRootVolumeName (om_name (dc_meta d))"
  shows "removeTracesOfSupervisordFromDC d = Returned (Inl (volumeNotFound (om_name (dc_meta d))))"
  using removeVolumeFromDC_absent[OF assms]
  by (simp add: removeTracesOfSupervisordFromDC_def)

lemma removeTraces_mount_absent:
  assumes vs: "volumes (dc_spec d) = vs0 \<or> (\<exists>v. volumes (dc_spec d) = vs0 @ [v])"
      and vs0: "\<forall>v \<in> set vs0. vol_name v \<noteq> getAppRootVolumeName (om_name (dc_meta d))"
      and ms: "\<forall>k \<in> set (containers (dc_spec d)). \<forall>m \<in> set (c_volumeMounts k).
                 vm_name m \<noteq> getAppRootVolumeName (om_name (dc_meta d))"
  shows "removeTracesOfSupervisordFromDC d = Returned (Inl (volumeNotFound (om_name (dc_meta d))))
       \<or> removeTracesOfSupervisordFromDC d = Returned (Inl (volumeMountNotFound (om_name (dc_meta d))))"
proof (cases "\<forall>v \<in> set (volumes (dc_spec d)). vol_name v \<noteq> getAppRootVolumeName (om_name (dc_meta d))")
  case True
  then show ?thesis by (simp add: removeTraces_volume_absent)
next
  case False
  with vs vs0 obtain v where v: "volumes (dc_spec d) = vs0 @ [v]"
      "vol_name v = getAppRootVolumeName (om_name (dc_meta d))"
    by auto
  let ?d1 = "d\<lparr>dc_spec := (dc_spec d)\<lparr>volumes := vs0\<rparr>\<rparr>"
  have r1: "removeVolumeFromDC (getAppRootVolumeName (om_name (dc_meta d))) d = Returned (True, ?d1)"
    using removeVolumeFromDC_last[OF vs0 v] .
  have "removeVolumeMountFromDC (getAppRootVolumeName (om_name (dc_meta d))) ?d1 = Returned (False, ?d1)"
    using ms by (intro removeVolumeMountFromDC_absent) simp
  with r1 show ?thesis
    by (simp add: removeTracesOfSupervisordFromDC_def)
qed

lemma copy_keeps_meta: "dc_meta (copyVolumesAndVolumeMounts dc cur k) = dc_meta dc"
  by (simp add: copyVolumesAndVolumeMounts_def Let_def)

lemma copy_volumes:
  "volumes (dc_spec (copyVolumesAndVolumeMounts dc cur k))
     = copy_volumes_loop (volumes (dc_spec cur)) (volumes (dc_spec dc))"
  by (simp add: copyVolumesAndVolumeMounts_def Let_def)

lemma copy_containers_mounts:
  assumes "\<forall>c \<in> set (containers (dc_spec dc)). \<forall>m \<in> set (c_volumeMounts c). vm_name m \<noteq> n"
      and "\<forall>m \<in> set (c_volumeMounts k). vm_name m \<noteq> n"
  shows "\<forall>c \<in> set (containers (dc_spec (copyVolumesAndVolumeMounts dc cur k))).
           \<forall>m \<in> set (c_volumeMounts c). vm_name m \<noteq> n"
proof -
  have "\<forall>m \<in> set (copy_mounts_loop (c_volumeMounts k) acc). vm_name m \<noteq> n"
    if "\<forall>m \<in> set acc. vm_name m \<noteq> n" for acc
    using copy_mounts_loop_cases[of "c_volumeMounts k" acc] that assms(2) by auto
  then have step: "\<forall>m \<in> set (copy_mounts_loop (c_volumeMounts k) (c_volumeMounts c)). vm_name m \<noteq> n"
    if "c \<in> set (containers (dc_spec dc))" for c
    using assms(1) that by blast
  show ?thesis
    unfolding copyVolumesAndVolumeMounts_def Let_def
    using step assms(1) by (simp add: ball_Un) blast
qed

text \<open>
  C6: reverting a workload that lacks the scratch volume, or whose primary container
  lacks the scratch mount, fails before anything is submitted. The current descriptor
  exists and has its primary container; the desired descriptor, freshly generated for
  build mode, carries no volume and no mount of the scratch name itself. Then
  \<open>PatchCurrentDC\<close> with the hook \<open>removeTracesOfSupervisordFromDC\<close> returns the
  wrapped error of the hook (volume not found, or volume mount not found) and leaves
  the cluster as it was: no update is in the log of submitted updates.
\<close>

theorem revert_without_scratch_fails:
  assumes get: "cl_dcs c name = Some currentDC"
      and cont: "findContainer (containers (dc_spec currentDC)) name = Inr cont"
      and dvs: "\<forall>v \<in> set (volumes (dc_spec dc)).
                  vol_name v \<noteq> getAppRootVolumeName (om_name (dc_meta dc))"
      and dms: "\<forall>k \<in> set (containers (dc_spec dc)). \<forall>m \<in> set (c_volumeMounts k).
                  vm_name m \<noteq> getAppRootVolumeName (om_name (dc_meta dc))"
      and lacks: "(\<forall>v \<in> set (volumes (dc_spec currentDC)).
                     vol_name v \<noteq> getAppRootVolumeName (om_name (dc_meta dc)))
                \<or> (\<forall>m \<in> set (c_volumeMounts cont).
                     vm_name m \<noteq> getAppRootVolumeName (om_name (dc_meta dc)))"
  shows "\<exists>err \<in> {volumeNotFound (om_name (dc_meta dc)), volumeMountNotFound (om_name (dc_meta dc))}.
           PatchCurrentDC c name dc (Some removeTracesOfSupervisordFromDC)
             = (Returned (Some (Wrap (''Unable to correctly update dc '' @ name
                                  @ '' using the specified prePatch handler'') err)), c)"
proof -
  let ?n = "getAppRootVolumeName (om_name (dc_meta dc))"
  let ?d1 = "copyVolumesAndVolumeMounts dc currentDC cont"
  have hook: "removeTracesOfSupervisordFromDC ?d1 = Returned (Inl (volumeNotFound (om_name (dc_meta dc))))
       \<or> removeTracesOfSupervisordFromDC ?d1 = Returned (Inl (volumeMountNotFound (om_name (dc_meta dc))))"
    using lacks
  proof
    assume a: "\<forall>v \<in> set (volumes (dc_spec currentDC)). vol_name v \<noteq> ?n"
    have "\<forall>v \<in> set (volumes (dc_spec ?d1)). vol_name v \<noteq> ?n"
      using copy_volumes_loop_cases[of "volumes (dc_spec currentDC)" "volumes (dc_spec dc)"] a dvs
      by (auto simp: copy_volumes)
    then show ?thesis using removeTraces_volume_absent[of ?d1] by (simp add: copy_keeps_meta)
  next
    assume a: "\<forall>m \<in> set (c_volumeMounts cont). vm_name m \<noteq> ?n"
    have ms: "\<forall>k \<in> set (containers (dc_spec ?d1)). \<forall>m \<in> set (c_volumeMounts k). vm_name m \<noteq> ?n"
      using copy_containers_mounts[OF dms a] .
    have vs: "volumes (dc_spec ?d1) = volumes (dc_spec dc)
            \<or> (\<exists>v. volumes (dc_spec ?d1) = volumes (dc_spec dc) @ [v])"
      using copy_volumes_loop_cases[of "volumes (dc_spec currentDC)" "volumes (dc_spec dc)"]
      by (auto simp: copy_volumes)
    show ?thesis
      using removeTraces_mount_absent[of ?d1 "volumes (dc_spec dc)"] vs dvs ms
      by (simp add: copy_keeps_meta)
  qed
  have "PatchCurrentDC c name dc (Some removeTracesOfSupervisordFromDC)
          = (case removeTracesOfSupervisordFromDC ?d1 of
               Returned (Inl err) \<Rightarrow>
                 (Returned (Some (Wrap (''Unable to correctly update dc '' @ name
                                  @ '' using the specified prePatch handler'') err)), c)
             | other \<Rightarrow> PatchCurrentDC c name dc (Some removeTracesOfSupervisordFromDC))"
    using hook get cont
    by (auto simp: PatchCurrentDC_def GetDeploymentConfigFromName_def Let_def)
  with hook show ?thesis by auto
qed

text \<open>
  The build-mode workload \<open>web\<close> with its volume \<open>data\<close> has neither the scratch
  volume nor the scratch mount: reverting it fails with the error of the hook, and the
  cluster is unchanged.
\<close>

theorem revert_without_scratch_fails_witness:
  "\<exists>err \<in> {volumeNotFound ''web'', volumeMountNotFound ''web''}.
     PatchCurrentDC (ex_cluster (ex_dc [ex_data_mount] [ex_data])) ''web'' (ex_dc [] [])
         (Some removeTracesOfSupervisordFromDC)
       = (Returned (Some (Wrap (''Unable to correctly update dc '' @ ''web''
                            @ '' using the specified prePatch handler'') err)),
          ex_cluster (ex_dc [ex_data_mount] [ex_data]))"
proof -
  let ?c = "ex_cluster (ex_dc [ex_data_mount] [ex_data])"
  let ?cur = "ex_dc [ex_data_mount] [ex_data]"
  let ?dc = "ex_dc [] []"
  have n: "om_name (dc_meta ?dc) = ''web''" by (simp add: ex_defs)
  have h1: "cl_dcs ?c ''web'' = Some ?cur" by (simp add: ex_defs)
  have h2: "findContainer (containers (dc_spec ?cur)) ''web'' = Inr (ex_container [ex_data_mount])"
    by (simp add: ex_defs findContainer_def)
  have h3: "\<forall>v \<in> set (volumes (dc_spec ?dc)).
              vol_name v \<noteq> getAppRootVolumeName (om_name (dc_meta ?dc))"
    by (simp add: ex_defs)
  have h4: "\<forall>k \<in> set (containers (dc_spec ?dc)). \<forall>m \<in> set (c_volumeMounts k).
              vm_name m \<noteq> getAppRootVolumeName (om_name (dc_meta ?dc))"
    by (simp add: ex_defs)
  have h5: "(\<forall>v \<in> set (volumes (dc_spec ?cur)).
               vol_name v \<noteq> getAppRootVolumeName (om_name (dc_meta ?dc)))
          \<or> (\<forall>m \<in> set (c_volumeMounts (ex_container [ex_data_mount])).
               vm_name m \<noteq> getAppRootVolumeName (om_name (dc_meta ?dc)))"
    by (simp add: ex_defs getAppRootVolumeName_def)
  show ?thesis
    using revert_without_scratch_fails[OF h1 h2 h3 h4 h5] unfolding n .
qed

section \<open>Properties of the condition watcher\<close>

lemma deferred_Stop_fst: "fst (deferred_Stop out) = out"
  by (cases out) (simp_all add: deferred_Stop_def)

lemma deferred_Stop_snd: "snd (deferred_Stop out) = (if out = Blocked then 0 else 1)"
  by (cases out) (simp_all add: deferred_Stop_def)

lemma WaitAndGetDC_loop_no_panic: "WaitAndGetDC_loop field val ws \<noteq> Panicked"
  by (induction field val ws rule: WaitAndGetDC_loop.induct) (auto split: Object.splits)

lemma WaitAndGetPod_loop_no_panic: "WaitAndGetPod_loop selector ws \<noteq> Panicked"
  by (induction selector ws rule: WaitAndGetPod_loop.induct)
     (auto split: Object.splits PodPhase.splits)

lemma WaitAndGetSecret_loop_no_panic: "WaitAndGetSecret_loop name ws \<noteq> Panicked"
  by (induction name ws rule: WaitAndGetSecret_loop.induct) (auto split: Object.splits)

lemma WaitForBuildToFinish_loop_no_panic: "WaitForBuildToFinish_loop ws \<noteq> Panicked"
  by (induction ws rule: WaitForBuildToFinish_loop.induct)
     (auto split: Object.splits BuildPhase.splits)

lemma WaitAndGetDC_loop_timeout:
  "WaitAndGetDC_loop field val ws = Blocked \<Longrightarrow>
   WaitAndGetDC_loop field val (ws @ TimerFired # rest) = Returned (Inl timedOutDC)"
  by (induction field val ws rule: WaitAndGetDC_loop.induct) (auto split: Object.splits if_splits)

lemma WaitAndGetPod_loop_timeout:
  "WaitAndGetPod_loop selector ws = Blocked \<Longrightarrow>
   WaitAndGetPod_loop selector (ws @ TimerFired # rest) = Returned (Inl (timedOutPod selector))"
  by (induction selector ws rule: WaitAndGetPod_loop.induct)
     (auto split: Object.splits PodPhase.splits)

lemma WaitAndGetSecret_loop_timer:
  "WaitAndGetSecret_loop name ws = Blocked \<Longrightarrow>
   WaitAndGetSecret_loop name (ws @ [TimerFired]) = Blocked"
  by (induction name ws rule: WaitAndGetSecret_loop.induct) (auto split: Object.splits)

lemma WaitForBuildToFinish_loop_timer:
  "WaitForBuildToFinish_loop ws = Blocked \<Longrightarrow>
   WaitForBuildToFinish_loop (ws @ [TimerFired]) = Blocked"
  by (induction ws rule: WaitForBuildToFinish_loop.induct)
     (auto split: Object.splits BuildPhase.splits)

lemma WaitAndGetSecret_loop_closed:
  "\<forall>w \<in> set ws. \<not> carries_secret w \<Longrightarrow>
   WaitAndGetSecret_loop name (ws @ Chan Closed # rest) = Returned (Inl (secretWaitError name))"
  by (induction name ws rule: WaitAndGetSecret_loop.induct) (auto split: Object.splits)

lemma WaitAndGetSecret_loop_after_timer:
  "WaitAndGetSecret_loop name (replicate k TimerFired @ ws) = WaitAndGetSecret_loop name ws"
  by (induction k) simp_all

text \<open>
  C3: a stream that closes, or that emits an error event, before the condition holds
  is not reported as a stream error. \<open>WaitForBuildToFinish\<close> returns \<open>nil\<close>, that
  is success, when the stream closes, also after an error event, which it skips.
  \<open>WaitAndGetDC\<close> keeps looping on the closed channel and returns its timeout error
  when the timer fires.
\<close>

theorem closed_stream_is_not_a_stream_error:
  "WaitForBuildToFinish ''web-1'' (WatchOpened [Chan Closed]) = (Returned None, 1)
   \<and> WaitForBuildToFinish ''web-1''
        (WatchOpened [Chan (Event (ERROR, StatusObject ''too old resource version'')), Chan Closed])
      = (Returned None, 1)
   \<and> WaitAndGetDC ''web'' sourceTypeAnnotation ''git''
        (WatchOpened [Chan Closed, Chan Closed, TimerFired])
      = (Returned (Inl timedOutDC), 1)"
  by (simp add: WaitForBuildToFinish_def WaitAndGetDC_def deferred_Stop_def)

text \<open>
  C4, against the claim: \<open>WaitAndGetSecret\<close> has no timer. On a stream that stays
  open and delivers nothing, the call is still blocked after the budget has elapsed.
\<close>

theorem secret_wait_has_no_timeout:
  "WaitAndGetSecret ''db-credentials'' ''myproject'' (WatchOpened [TimerFired]) = (Blocked, 0)"
  by (simp add: WaitAndGetSecret_def deferred_Stop_def)

text \<open>
  C4, as amended: the two waits that select on a timer are bounded by it, the two
  others are not. If what happened so far has left the call waiting, then
  \<open>WaitAndGetDC\<close> and \<open>WaitAndGetPod\<close> return their timeout error as soon as the
  timer fires, whatever would follow, while \<open>WaitAndGetSecret\<close> and
  \<open>WaitForBuildToFinish\<close> are still blocked after the budget has elapsed.
\<close>

theorem timer_bounds_only_the_selecting_waits:
  "(WaitAndGetDC_loop field val ws = Blocked \<longrightarrow>
      WaitAndGetDC name field val (WatchOpened (ws @ TimerFired # rest))
        = (Returned (Inl timedOutDC), 1))
   \<and> (WaitAndGetPod_loop selector ws = Blocked \<longrightarrow>
      WaitAndGetPod selector (WatchOpened (ws @ TimerFired # rest))
        = (Returned (Inl (timedOutPod selector)), 1))
   \<and> (WaitAndGetSecret_loop name ws = Blocked \<longrightarrow>
      WaitAndGetSecret name namespace (WatchOpened (ws @ [TimerFired])) = (Blocked, 0))
   \<and> (WaitForBuildToFinish_loop ws = Blocked \<longrightarrow>
      WaitForBuildToFinish buildName (WatchOpened (ws @ [TimerFired])) = (Blocked, 0))"
  by (simp add: WaitAndGetDC_def WaitAndGetPod_def WaitAndGetSecret_def WaitForBuildToFinish_def
      WaitAndGetDC_loop_timeout WaitAndGetPod_loop_timeout WaitAndGetSecret_loop_timer
      WaitForBuildToFinish_loop_timer deferred_Stop_def)

text \<open>
  After one error event, which none of the four waits reacts to, each of them is
  still waiting; the timer then ends the first two and leaves the other two blocked.
\<close>

theorem timer_bounds_only_the_selecting_waits_witness:
  "WaitAndGetDC_loop sourceTypeAnnotation ''git'' [Chan (Event (MODIFIED, DCObject (ex_dc [] [])))]
     \<noteq> Blocked
   \<and> WaitAndGetDC_loop sourceTypeAnnotation ''local''
        [Chan (Event (MODIFIED, DCObject (ex_dc [] [])))] = Blocked
   \<and> WaitAndGetDC ''web'' sourceTypeAnnotation ''local''
        (WatchOpened ([Chan (Event (MODIFIED, DCObject (ex_dc [] [])))] @ TimerFired # []))
      = (Returned (Inl timedOutDC), 1)
   \<and> WaitAndGetPod ''app=web''
        (WatchOpened ([Chan (Event (ADDED, PodObject \<lparr>pod_name = ''web-1-abcde'', pod_phase = PodPending\<rparr>))]
                      @ TimerFired # []))
      = (Returned (Inl (timedOutPod ''app=web'')), 1)
   \<and> WaitAndGetSecret ''db-credentials'' ''myproject''
        (WatchOpened ([Chan (Event (ERROR, StatusObject ''gone''))] @ [TimerFired])) = (Blocked, 0)
   \<and> WaitForBuildToFinish ''web-1''
        (WatchOpened ([Chan (Event (MODIFIED, BuildObject \<lparr>build_name = ''web-1'', build_phase = BuildPhaseRunning\<rparr>))]
                      @ [TimerFired])) = (Blocked, 0)"
proof -
  have d: "WaitAndGetDC_loop sourceTypeAnnotation ''local''
             [Chan (Event (MODIFIED, DCObject (ex_dc [] [])))] = Blocked"
    by (simp add: ex_defs map_index_def sourceTypeAnnotation_def)
  have p: "WaitAndGetPod_loop ''app=web''
             [Chan (Event (ADDED, PodObject \<lparr>pod_name = ''web-1-abcde'', pod_phase = PodPending\<rparr>))]
           = Blocked"
    by simp
  have s: "WaitAndGetSecret_loop ''db-credentials'' [Chan (Event (ERROR, StatusObject ''gone''))]
           = Blocked"
    by simp
  have b: "WaitForBuildToFinish_loop
             [Chan (Event (MODIFIED, BuildObject \<lparr>build_name = ''web-1'', build_phase = BuildPhaseRunning\<rparr>))]
           = Blocked"
    by simp
  have n: "WaitAndGetDC_loop sourceTypeAnnotation ''git''
             [Chan (Event (MODIFIED, DCObject (ex_dc [] [])))] \<noteq> Blocked"
    by (simp add: ex_defs map_index_def sourceTypeAnnotation_def)
  show ?thesis
    using n d
      timer_bounds_only_the_selecting_waits
        [where field = sourceTypeAnnotation and val = "''local''"
           and ws = "[Chan (Event (MODIFIED, DCObject (ex_dc [] [])))]"
           and name = "''web''" and rest = "[]",
         THEN conjunct1, rule_format, OF d]
      timer_bounds_only_the_selecting_waits
        [where ws = "[Chan (Event (ADDED, PodObject \<lparr>pod_name = ''web-1-abcde'', pod_phase = PodPending\<rparr>))]"
           and rest = "[]" and selector = "''app=web''",
         THEN conjunct2, THEN conjunct1, rule_format, OF p]
      timer_bounds_only_the_selecting_waits
        [where ws = "[Chan (Event (ERROR, StatusObject ''gone''))]"
           and name = "''db-credentials''" and namespace = "''myproject''",
         THEN conjunct2, THEN conjunct2, THEN conjunct1, rule_format, OF s]
      timer_bounds_only_the_selecting_waits
        [where ws = "[Chan (Event (MODIFIED, BuildObject \<lparr>build_name = ''web-1'', build_phase = BuildPhaseRunning\<rparr>))]"
           and buildName = "''web-1''",
         THEN conjunct2, THEN conjunct2, THEN conjunct2, rule_format, OF b]
    by blast
qed

text \<open>
  C7, against the claim: when opening the subscription fails, \<open>WaitAndGetPod\<close>
  returns the error before its \<open>defer\<close> statement is reached, so \<open>Stop\<close> is never
  invoked on that exit path.
\<close>

theorem failed_open_is_not_stopped:
  "WaitAndGetPod ''app=web'' (WatchFailed (Err ''forbidden'') True)
     = (Returned (Inl (Wrap ''unable to watch pod'' (Err ''forbidden''))), 0)"
  by (simp add: WaitAndGetPod_def)

text \<open>
  C7, as amended: once the subscription has been opened, each of the four waits
  releases it exactly once on every path on which it comes back (condition met,
  timeout, stream closed or failed), never panics, and has released nothing while it
  is still blocked. When opening fails, \<open>WaitAndGetPod\<close>, \<open>WaitAndGetSecret\<close> and
  \<open>WaitForBuildToFinish\<close> return the wrapped error without invoking \<open>Stop\<close>: there
  is no subscription to release.
\<close>

theorem opened_watch_is_stopped_once:
  "fst (WaitAndGetDC name field val (WatchOpened ws)) \<noteq> Panicked
   \<and> snd (WaitAndGetDC name field val (WatchOpened ws))
       = (if fst (WaitAndGetDC name field val (WatchOpened ws)) = Blocked then 0 else 1)
   \<and> fst (WaitAndGetPod selector (WatchOpened ws)) \<noteq> Panicked
   \<and> snd (WaitAndGetPod selector (WatchOpened ws))
       = (if fst (WaitAndGetPod selector (WatchOpened ws)) = Blocked then 0 else 1)
   \<and> fst (WaitAndGetSecret name namespace (WatchOpened ws)) \<noteq> Panicked
   \<and> snd (WaitAndGetSecret name namespace (WatchOpened ws))
       = (if fst (WaitAndGetSecret name namespace (WatchOpened ws)) = Blocked then 0 else 1)
   \<and> fst (WaitForBuildToFinish buildName (WatchOpened ws)) \<noteq> Panicked
   \<and> snd (WaitForBuildToFinish buildName (WatchOpened ws))
       = (if fst (WaitForBuildToFinish buildName (WatchOpened ws)) = Blocked then 0 else 1)
   \<and> WaitAndGetPod selector (WatchFailed err handle_nil)
       = (Returned (Inl (Wrap ''unable to watch pod'' err)), 0)
   \<and> WaitAndGetSecret name namespace (WatchFailed err handle_nil)
       = (Returned (Inl (Wrap ''unable to watch secret'' err)), 0)
   \<and> WaitForBuildToFinish buildName (WatchFailed err handle_nil)
       = (Returned (Some (Wrap ''unable to watch build'' err)), 0)"
  by (simp add: WaitAndGetDC_def WaitAndGetPod_def WaitAndGetSecret_def WaitForBuildToFinish_def
      deferred_Stop_fst deferred_Stop_snd
      WaitAndGetDC_loop_no_panic WaitAndGetPod_loop_no_panic WaitAndGetSecret_loop_no_panic
      WaitForBuildToFinish_loop_no_panic)

text \<open>
  A watch on the workload \<open>web\<close> that delivers the awaited annotation: the wait
  returns the descriptor and has invoked \<open>Stop\<close> once.
\<close>

theorem opened_watch_is_stopped_once_witness:
  "WaitAndGetDC ''web'' sourceTypeAnnotation ''git''
      (WatchOpened [Chan (Event (MODIFIED, DCObject (ex_dc [] [])))])
     = (Returned (Inr (ex_dc [] [])), 1)"
proof -
  let ?w = "WatchOpened [Chan (Event (MODIFIED, DCObject (ex_dc [] [])))]"
  have f: "fst (WaitAndGetDC ''web'' sourceTypeAnnotation ''git'' ?w) = Returned (Inr (ex_dc [] []))"
    by (simp add: WaitAndGetDC_def deferred_Stop_fst ex_defs map_index_def sourceTypeAnnotation_def)
  have "snd (WaitAndGetDC ''web'' sourceTypeAnnotation ''git'' ?w) = 1"
    using opened_watch_is_stopped_once
            [where name = "''web''" and field = sourceTypeAnnotation and val = "''git''"
               and ws = "[Chan (Event (MODIFIED, DCObject (ex_dc [] [])))]", THEN conjunct2, THEN conjunct1]
    unfolding f by simp
  with f show ?thesis by (simp add: prod_eq_iff)
qed

text \<open>
  C10: \<open>WaitAndGetSecret\<close> resolves on the first event that carries a secret,
  whatever its change type (a \<open>DELETED\<close> event included) and however long it takes
  to arrive, and returns that secret; and when the stream closes before any event
  with a secret has arrived, it returns an error, not \<open>nil\<close>. No predicate other
  than the type of the object is applied.
\<close>

theorem WaitAndGetSecret_first_secret_event:
  "WaitAndGetSecret name namespace
      (WatchOpened (replicate k TimerFired @ Chan (Event (t, SecretObject e)) # rest))
     = (Returned (Inr e), 1)
   \<and> ((\<forall>w \<in> set ws. \<not> carries_secret w) \<longrightarrow>
        WaitAndGetSecret name namespace (WatchOpened (ws @ Chan Closed # rest))
          = (Returned (Inl (secretWaitError name)), 1))"
  by (simp add: WaitAndGetSecret_def deferred_Stop_def WaitAndGetSecret_loop_closed
      WaitAndGetSecret_loop_after_timer)

text \<open>
  A \<open>DELETED\<close> event of the secret resolves the wait with the deleted secret; a
  stream that closes after an event without a secret makes it fail.
\<close>

theorem WaitAndGetSecret_first_secret_event_witness:
  "WaitAndGetSecret ''db-credentials'' ''myproject''
      (WatchOpened [Chan (Event (DELETED, SecretObject \<lparr>secret_name = ''db-credentials'', secret_data = []\<rparr>))])
     = (Returned (Inr \<lparr>secret_name = ''db-credentials'', secret_data = []\<rparr>), 1)
   \<and> \<not> carries_secret (Chan (Event (ERROR, StatusObject ''gone'')))
   \<and> WaitAndGetSecret ''db-credentials'' ''myproject''
        (WatchOpened [Chan (Event (ERROR, StatusObject ''gone'')), Chan Closed])
      = (Returned (Inl (secretWaitError ''db-credentials'')), 1)"
proof -
  have h: "\<forall>w \<in> set [Chan (Event (ERROR, StatusObject ''gone''))]. \<not> carries_secret w"
    by simp
  show ?thesis
    using h
      WaitAndGetSecret_first_secret_event
        [where name = "''db-credentials''" and namespace = "''myproject''" and k = 0
           and t = DELETED and e = "\<lparr>secret_name = ''db-credentials'', secret_data = []\<rparr>"
           and rest = "[]" and ws = "[Chan (Event (ERROR, StatusObject ''gone''))]"]
    by simp
qed

section \<open>Properties of the file synchronization transport\<close>

lemmas path_defs = path_Clean_def path_Base_def path_Dir_def path_Join_def clean_step_def
  strip_trailing_slashes_def after_last_slash_def

lemmas copy_defs = CopyFile_def archive_producer_def makeTar_def isSingleFileTransfer_def
  checkFileExist_def WriteHeader_def Let_def

subsection \<open>The last element of a cleaned path\<close>










subsection \<open>Single-file transfer\<close>




subsection \<open>Failures of archive construction\<close>






subsection \<open>Names of archive entries\<close>

text \<open>
  C9: archive entry names can contain a backslash. On a host where the one changed
  file is spelled with a backslash, the single-file transfer names its entry by the
  whole spelling, backslash included; and the walk of a directory whose entry has a
  backslash in its name writes that name as it is. \<open>recursiveTar\<close> never replaces
  the character.
\<close>

theorem archive_entry_names_keep_backslash:
  "CopyFile (Suc 0) ex_backslash_host ''dir'' ''web-1-abcde'' ''/opt/app-root/src'' [backslash_file]
     = Some \<lparr>cr_outcome = Done None,
             cr_archive = [Header \<lparr>hdr_Name = backslash_file, hdr_Typeflag = Regular, hdr_Linkname = []\<rparr>,
                           Data backslash_file],
             cr_cmdArr = [''tar'', ''xf'', ''-'', ''-C'', ''/opt/app-root/src'']\<rparr>
   \<and> CopyFile (Suc (Suc 0)) ex_backslash_host ''dir'' ''web-1-abcde'' ''/opt/app-root/src'' []
     = Some \<lparr>cr_outcome = Done None,
             cr_archive = [Header \<lparr>hdr_Name = ''dir/'' @ backslash_entry, hdr_Typeflag = Regular,
                                   hdr_Linkname = []\<rparr>,
                           Data (''dir/'' @ backslash_entry)],
             cr_cmdArr = [''tar'', ''xf'', ''-'', ''-C'', ''/opt/app-root/src'', ''--strip'', ''1'']\<rparr>
   \<and> CHR 0x5C \<in> set backslash_file
   \<and> CHR 0x5C \<in> set (''dir/'' @ backslash_entry)"
  by (simp add: copy_defs ex_backslash_host_def path_defs backslash_file_def backslash_entry_def)

end
